theory Spec2Isabelle
  imports Main "HOL-Library.Sublist"
begin

section \<open>Strings\<close>

text \<open>
  A JavaScript string is modelled as a \<^typ>\<open>string\<close>: the text in UTF-8, one
  \<^typ>\<open>char\<close> per byte. Every character the code under study looks for
  (\<open><\<close>, \<open>></\<close>, letters, digits, braces, parentheses) is ASCII, and an ASCII
  byte never occurs inside the encoding of another code point, so searching, matching
  and counting are the same on both representations.
\<close>

fun join :: "string \<Rightarrow> string list \<Rightarrow> string" where
  "join sep [] = []"
| "join sep [x] = x"
| "join sep (x # y # ys) = x @ sep @ join sep (y # ys)"

text \<open>\<open>String.prototype.includes\<close>: does \<open>sub\<close> occur in \<open>s\<close> as a contiguous run?\<close>

fun includes_str :: "string \<Rightarrow> string \<Rightarrow> bool" where
  "includes_str [] sub = (sub = [])"
| "includes_str (c # cs) sub = (prefix sub (c # cs) \<or> includes_str cs sub)"

text \<open>Decimal rendering of a number inside a template literal.\<close>

definition digit_char :: "nat \<Rightarrow> char" where
  "digit_char d = char_of (48 + d)"

fun show_nat :: "nat \<Rightarrow> string" where
  "show_nat n = (if n < 10 then [digit_char n] else show_nat (n div 10) @ [digit_char (n mod 10)])"

declare show_nat.simps [simp del]

definition show_int :: "int \<Rightarrow> string" where
  "show_int i = (if i < 0 then ''-'' @ show_nat (nat (- i)) else show_nat (nat i))"

text \<open>
  The first occurrence of \<open>needle\<close> in a text: the text before it and the text after it.
\<close>

fun split_at_first :: "string \<Rightarrow> string \<Rightarrow> (string \<times> string) option" where
  "split_at_first needle [] = (if needle = [] then Some ([], []) else None)"
| "split_at_first needle (c # cs) =
     (if prefix needle (c # cs) then Some ([], drop (length needle) (c # cs))
      else (case split_at_first needle cs of
              None \<Rightarrow> None
            | Some (before, after) \<Rightarrow> Some (c # before, after)))"

section \<open>Error taxonomy (src/types/errors.ts)\<close>

datatype ErrorType =
    syntax_error
  | runtime_error
  | render_error
  | missing_dependency
  | layout_broken
  | incomplete_code
  | llm_generation_error

fun ErrorType_name :: "ErrorType \<Rightarrow> string" where
  "ErrorType_name syntax_error = ''syntax_error''"
| "ErrorType_name runtime_error = ''runtime_error''"
| "ErrorType_name render_error = ''render_error''"
| "ErrorType_name missing_dependency = ''missing_dependency''"
| "ErrorType_name layout_broken = ''layout_broken''"
| "ErrorType_name incomplete_code = ''incomplete_code''"
| "ErrorType_name llm_generation_error = ''llm_generation_error''"

record DetectedError =
  type :: ErrorType
  message :: string
  line :: "int option"
  column :: "int option"
  stack :: "string option"
  detected_at :: int

text \<open>
  \<open>detected_at\<close> is the field \<open>timestamp\<close> of \<open>DetectedError\<close>; the name
  \<open>timestamp\<close> is kept for the field of \<open>FixAttempt\<close> below.
\<close>

datatype FixStrategy =
    explain_and_fix
  | simplify
  | add_error_handling
  | use_alternatives
  | rebuild_from_scratch
  | add_fallbacks

fun FixStrategy_name :: "FixStrategy \<Rightarrow> string" where
  "FixStrategy_name explain_and_fix = ''explain_and_fix''"
| "FixStrategy_name simplify = ''simplify''"
| "FixStrategy_name add_error_handling = ''add_error_handling''"
| "FixStrategy_name use_alternatives = ''use_alternatives''"
| "FixStrategy_name rebuild_from_scratch = ''rebuild_from_scratch''"
| "FixStrategy_name add_fallbacks = ''add_fallbacks''"

record FixAttempt =
  attemptNumber :: int
  strategy :: FixStrategy
  prompt :: string
  result :: "string option"
  success :: bool
  errors :: "DetectedError list"
  timestamp :: int

text \<open>
  A thrown JavaScript exception: an \<open>Error\<close> with its message, or the \<open>TypeError\<close> of
  the engine (its message differs between engines).
\<close>

datatype js_error = Error string | TypeError

section \<open>The healing engine (src/utils/selfHealing.ts)\<close>

record SelfHealingEngine =
  attemptHistory :: "FixAttempt list"

text \<open>The private field \<open>maxAttempts = 5\<close> is never assigned again.\<close>

definition maxAttempts :: int where
  "maxAttempts = 5"

definition new_SelfHealingEngine :: SelfHealingEngine where
  "new_SelfHealingEngine = \<lparr>attemptHistory = []\<rparr>"

text \<open>
  The generative service is reached through one \<open>invoke\<close> call. A request is the command
  name with its arguments; the service answers with a response text (\<open>Inr\<close>) or rejects
  with an error, of which only the rendering as text is used (\<open>Inl\<close>).
\<close>

record invoke_request =
  command :: string
  prompt_arg :: string
  is_fix_attempt :: bool
  attempt_number :: int

type_synonym generative_service = "invoke_request \<Rightarrow> string + string"

fun selectStrategy :: "DetectedError list \<Rightarrow> int \<Rightarrow> FixStrategy" where
  "selectStrategy errs attemptNo =
     (if attemptNo = 1 then explain_and_fix
      else if attemptNo = 2 then add_error_handling
      else if attemptNo = 3 then simplify
      else if attemptNo = 4 then use_alternatives
      else rebuild_from_scratch)"

fun getStrategyInstructions :: "FixStrategy \<Rightarrow> string" where
  "getStrategyInstructions explain_and_fix = join ''\<newline>''
     ['''',
      ''- Analyze each error carefully'',
      ''- Fix the specific issues'',
      ''- Ensure all syntax is correct'',
      ''- Return complete, working code'']"
| "getStrategyInstructions add_error_handling = join ''\<newline>''
     ['''',
      ''- Wrap JavaScript in try-catch blocks'',
      ''- Add defensive checks (if element exists before using it)'',
      ''- Provide user-friendly error messages'',
      ''- Make the app resilient to failures'']"
| "getStrategyInstructions simplify = join ''\<newline>''
     ['''',
      ''- Remove complex features that might be causing issues'',
      ''- Use simpler HTML/CSS/JS patterns'',
      ''- Focus on core functionality'',
      ''- Reduce dependencies'']"
| "getStrategyInstructions use_alternatives = join ''\<newline>''
     ['''',
      ''- Try a different technical approach'',
      ''- Use vanilla JS instead of complex patterns'',
      ''- Avoid features that caused previous errors'',
      ''- Find simpler ways to achieve the same result'']"
| "getStrategyInstructions rebuild_from_scratch = join ''\<newline>''
     ['''',
      ''- Start fresh with a simpler version'',
      ''- Focus on getting SOMETHING working first'',
      ''- Use the most basic, reliable patterns'',
      ''- Prioritize functionality over features'',
      ''- Make it bulletproof'']"
| "getStrategyInstructions add_fallbacks = join ''\<newline>''
     ['''',
      ''- Add polyfills for missing features'',
      ''- Provide fallback content for failed loads'',
      ''- Use defensive programming'',
      ''- Ensure graceful degradation'']"

text \<open>
  The prompt is a template literal followed by \<open>trim()\<close>. The literal starts with a line
  break before the wrench sign (U+1F527, four bytes in UTF-8) and ends with a line break
  after \<open>code:\<close>; \<open>trim()\<close> removes exactly these two, since the characters next to them
  are not white space.
\<close>

definition buildFixPrompt ::
  "string \<Rightarrow> string \<Rightarrow> DetectedError list \<Rightarrow> FixStrategy \<Rightarrow> int \<Rightarrow> string" where
  "buildFixPrompt originalPrompt brokenCode errs strat attemptNo =
     (let errorSummary = join ''\<newline>''
            (map (\<lambda>e. ''- '' @ ErrorType_name (type e) @ '': '' @ message e) errs);
          strategyInstructions = getStrategyInstructions strat
      in join ''\<newline>''
        [[CHR 0xF0, CHR 0x9F, CHR 0x94, CHR 0xA7] @ '' CODE FIXING ATTEMPT #'' @ show_int attemptNo,
         '''',
         ''ORIGINAL REQUEST:'',
         originalPrompt,
         '''',
         ''PREVIOUS CODE (WITH ERRORS):'',
         ''```html'',
         brokenCode,
         ''```'',
         '''',
         ''DETECTED ERRORS:'',
         errorSummary,
         '''',
         ''FIX STRATEGY: '' @ FixStrategy_name strat,
         strategyInstructions,
         '''',
         ''CRITICAL REQUIREMENTS:'',
         ''1. Output COMPLETE, WORKING HTML (must include <!DOCTYPE html>, <html>, <head>, <body>, closing tags)'',
         ''2. All syntax must be valid (check braces, quotes, tags)'',
         ''3. Test your code mentally before responding'',
         ''4. Make it work - no placeholders or TODOs'',
         ''5. If external resources might fail, use fallbacks or inline everything'',
         '''',
         ''Now provide the FIXED, COMPLETE code:''])"

definition getAttemptHistory :: "SelfHealingEngine \<Rightarrow> FixAttempt list" where
  "getAttemptHistory eng = attemptHistory eng"

definition clearHistory :: "SelfHealingEngine \<Rightarrow> SelfHealingEngine" where
  "clearHistory eng = eng\<lparr>attemptHistory := []\<rparr>"

definition getAttemptCount :: "SelfHealingEngine \<Rightarrow> int" where
  "getAttemptCount eng = int (length (attemptHistory eng))"

definition hasReachedMaxAttempts :: "SelfHealingEngine \<Rightarrow> bool" where
  "hasReachedMaxAttempts eng = (int (length (attemptHistory eng)) \<ge> maxAttempts)"

text \<open>
  \<open>response.match(/```html\n([\s\S]*?)```/)\<close>: the text between the first
  \<open>```html\<close> line and the first \<open>```\<close> after it. When the first opening fence has no
  closing fence after it, no later position matches either (a later opening fence would
  itself be a closing fence for the first one), and the whole response is returned.
\<close>

definition extract_code :: "string \<Rightarrow> string" where
  "extract_code response =
     (case split_at_first ''```html\<newline>'' response of
        None \<Rightarrow> response
      | Some (_, after) \<Rightarrow>
          (case split_at_first ''```'' after of
             None \<Rightarrow> response
           | Some (body, _) \<Rightarrow> body))"

text \<open>
  \<open>fix_request\<close> is the call \<open>requestFix\<close> makes: the command with its argument
  object. \<open>requestFix\<close> returns the extracted code or the exception it throws, together
  with the requests it sent to the generative service. The \<open>console.error\<close> of the
  \<open>catch\<close> block writes to a log only and is left out.
\<close>

definition fix_request :: "SelfHealingEngine \<Rightarrow> string \<Rightarrow> invoke_request" where
  "fix_request eng fixPrompt =
     \<lparr>command = ''generate_vibe_with_healing'',
      prompt_arg = fixPrompt,
      is_fix_attempt = True,
      attempt_number = getAttemptCount eng + 1\<rparr>"

definition requestFix ::
  "generative_service \<Rightarrow> SelfHealingEngine \<Rightarrow> string \<Rightarrow> (js_error + string) \<times> invoke_request list" where
  "requestFix svc eng fixPrompt =
     (let req = fix_request eng fixPrompt
      in case svc req of
           Inl err \<Rightarrow> (Inl (Error (''LLM fix request failed: '' @ err)), [req])
         | Inr response \<Rightarrow> (Inr (extract_code response), [req]))"

text \<open>
  \<open>healCode\<close>: the value returned or the exception thrown, the engine afterwards, and
  the requests sent to the generative service. \<open>now\<close> is the reading of \<open>Date.now()\<close>
  when the attempt is logged.
\<close>

definition healCode ::
  "generative_service \<Rightarrow> int \<Rightarrow> SelfHealingEngine \<Rightarrow> string \<Rightarrow> string \<Rightarrow> DetectedError list \<Rightarrow> int
     \<Rightarrow> (js_error + string) \<times> SelfHealingEngine \<times> invoke_request list" where
  "healCode svc now eng originalPrompt brokenCode errs attemptNo =
     (if attemptNo > maxAttempts
      then (Inl (Error ''Max healing attempts reached. Code could not be fixed.''), eng, [])
      else
        let strat = selectStrategy errs attemptNo;
            fixPrompt = buildFixPrompt originalPrompt brokenCode errs strat attemptNo
        in case requestFix svc eng fixPrompt of
             (Inl exn, sent) \<Rightarrow> (Inl exn, eng, sent)
           | (Inr fixedCode, sent) \<Rightarrow>
               (Inr fixedCode,
                eng\<lparr>attemptHistory := attemptHistory eng @
                  [\<lparr>attemptNumber = attemptNo,
                    strategy = strat,
                    prompt = fixPrompt,
                    result = Some fixedCode,
                    success = False,
                    errors = errs,
                    timestamp = now\<rparr>]\<rparr>,
                sent))"

text \<open>
  \<open>markLastAttemptSuccess\<close> assigns the field \<open>success\<close> of the last element of the
  history, when there is one.
\<close>

definition markLastAttemptSuccess :: "SelfHealingEngine \<Rightarrow> SelfHealingEngine" where
  "markLastAttemptSuccess eng =
     (if length (attemptHistory eng) > 0
      then eng\<lparr>attemptHistory :=
             (attemptHistory eng)[length (attemptHistory eng) - 1 :=
                (attemptHistory eng ! (length (attemptHistory eng) - 1))\<lparr>success := True\<rparr>]\<rparr>
      else eng)"

text \<open>
  A healing session as the engine sees it: a sequence of \<open>healCode\<close> calls, each with
  its own service behaviour, clock reading and arguments, on an engine that starts
  with an empty history. A call that throws leaves the engine as \<open>healCode\<close> left it.
\<close>

record heal_call =
  call_service :: generative_service
  call_now :: int
  call_originalPrompt :: string
  call_brokenCode :: string
  call_errors :: "DetectedError list"
  call_attemptNumber :: int

definition heal_step :: "SelfHealingEngine \<Rightarrow> heal_call \<Rightarrow> SelfHealingEngine" where
  "heal_step eng c =
     fst (snd (healCode (call_service c) (call_now c) eng (call_originalPrompt c)
                 (call_brokenCode c) (call_errors c) (call_attemptNumber c)))"

definition heal_session :: "heal_call list \<Rightarrow> SelfHealingEngine" where
  "heal_session cs = foldl heal_step new_SelfHealingEngine cs"

section \<open>The detector (class \<open>ErrorDetector\<close>, second part of src/types/errors.ts)\<close>

subsection \<open>Character classes of the regular expressions\<close>

text \<open>
  The patterns carry the flag \<open>i\<close> and not \<open>u\<close>: a character at or above 128 is never
  identified with an ASCII one, so \<open>[a-z]\<close> stands for the 52 ASCII letters, and the word
  characters of \<open>\b\<close> are the ASCII letters, the digits and the underscore.
\<close>

definition is_lower :: "char \<Rightarrow> bool" where
  "is_lower c = (c \<in> set ''abcdefghijklmnopqrstuvwxyz'')"

definition is_upper :: "char \<Rightarrow> bool" where
  "is_upper c = (c \<in> set ''ABCDEFGHIJKLMNOPQRSTUVWXYZ'')"

definition is_digit :: "char \<Rightarrow> bool" where
  "is_digit c = (c \<in> set ''0123456789'')"

definition is_alpha :: "char \<Rightarrow> bool" where
  "is_alpha c = (is_lower c \<or> is_upper c)"

definition is_alnum :: "char \<Rightarrow> bool" where
  "is_alnum c = (is_alpha c \<or> is_digit c)"

definition is_word :: "char \<Rightarrow> bool" where
  "is_word c = (is_alnum c \<or> c = CHR ''_'')"

definition lower_char :: "char \<Rightarrow> char" where
  "lower_char c = (if is_upper c then char_of (of_char c + (32::nat)) else c)"

text \<open>
  \<open>toLowerCase()\<close> is applied to tag names, which consist of ASCII letters and digits,
  and to a text that is then searched for ASCII words only; no character outside ASCII
  has a lower-case form with a letter of these words in it.
\<close>

definition toLowerCase :: "string \<Rightarrow> string" where
  "toLowerCase s = map lower_char s"

text \<open>A lower-case literal of a pattern with the flag \<open>i\<close>, matched at the start of a text.\<close>

definition prefix_ci :: "string \<Rightarrow> string \<Rightarrow> bool" where
  "prefix_ci lit s = (length lit \<le> length s \<and> toLowerCase (take (length lit) s) = lit)"

subsection \<open>Matching one pattern at one position\<close>

text \<open>
  \<open>/<([a-z][a-z0-9]*)\b[^>]*>/gi\<close> at the start of a text: the captured name and the
  length of the match. The name is the longest run of letters and digits: after a
  shorter one the next character is a letter or digit, and neither \<open>\b\<close> nor \<open>></\<close>
  can follow. \<open>\b\<close> then asks for a character that is not a word character, and
  \<open>[^>]*>\<close> runs to the first \<open>></\<close>.
\<close>

definition match_open_tag :: "string \<Rightarrow> (string \<times> nat) option" where
  "match_open_tag s =
     (case s of
        c0 # c1 # t \<Rightarrow>
          if c0 = CHR ''<'' \<and> is_alpha c1 then
            (let name = c1 # takeWhile is_alnum t;
                 r = dropWhile is_alnum t
             in case r of
                  [] \<Rightarrow> None
                | d # _ \<Rightarrow>
                    if is_word d then None
                    else (let attrs = takeWhile (\<lambda>x. x \<noteq> CHR ''>'') r
                          in if length attrs < length r
                             then Some (name, 1 + length name + length attrs + 1)
                             else None))
          else None
      | _ \<Rightarrow> None)"

text \<open>\<open>/<\/([a-z][a-z0-9]*)>/gi\<close> at the start of a text.\<close>

definition match_close_tag :: "string \<Rightarrow> (string \<times> nat) option" where
  "match_close_tag s =
     (case s of
        c0 # c1 # c2 # t \<Rightarrow>
          if c0 = CHR ''<'' \<and> c1 = CHR ''/'' \<and> is_alpha c2 then
            (let name = c2 # takeWhile is_alnum t
             in case dropWhile is_alnum t of
                  [] \<Rightarrow> None
                | d # _ \<Rightarrow> if d = CHR ''>'' then Some (name, 2 + length name + 1) else None)
          else None
      | _ \<Rightarrow> None)"

text \<open>\<open>/<script[^>]*>/i\<close> and \<open>/<\/script>/i\<close> at the start of a text: the length matched.\<close>

definition match_script_open :: "string \<Rightarrow> nat option" where
  "match_script_open s =
     (if prefix_ci ''<script'' s then
        (let r = drop 7 s;
             attrs = takeWhile (\<lambda>x. x \<noteq> CHR ''>'') r
         in if length attrs < length r then Some (7 + length attrs + 1) else None)
      else None)"

definition match_script_close :: "string \<Rightarrow> nat option" where
  "match_script_close s = (if prefix_ci ''</script>'' s then Some 9 else None)"

text \<open>
  The lazy \<open>([\s\S]*?)<\/script>\<close>: the number of characters up to the end of the first
  closing script tag.
\<close>

fun find_script_close :: "string \<Rightarrow> nat option" where
  "find_script_close [] = None"
| "find_script_close (c # cs) =
     (case match_script_close (c # cs) of
        Some n \<Rightarrow> Some n
      | None \<Rightarrow> (case find_script_close cs of None \<Rightarrow> None | Some m \<Rightarrow> Some (Suc m)))"

text \<open>\<open>/<script[^>]*>([\s\S]*?)<\/script>/gi\<close> at the start of a text: the length matched.\<close>

definition match_script :: "string \<Rightarrow> nat option" where
  "match_script s =
     (case match_script_open s of
        None \<Rightarrow> None
      | Some n \<Rightarrow> (case find_script_close (drop n s) of None \<Rightarrow> None | Some m \<Rightarrow> Some (n + m)))"

subsection \<open>Scanning a text with a global pattern\<close>

text \<open>
  A pattern with the flag \<open>g\<close> is tried at \<open>lastIndex\<close>, then one character further
  on each failure; a match moves \<open>lastIndex\<close> to its end. In the scans below the first
  argument counts the characters still to pass before \<open>lastIndex\<close> is reached. No
  pattern of this file matches the empty text.
\<close>

fun exec_all :: "(string \<Rightarrow> (string \<times> nat) option) \<Rightarrow> nat \<Rightarrow> string \<Rightarrow> string list" where
  "exec_all pat skip [] = []"
| "exec_all pat skip (c # cs) =
     (if skip > 0 then exec_all pat (skip - 1) cs
      else (case pat (c # cs) of
              Some (name, len) \<Rightarrow> name # exec_all pat (len - 1) cs
            | None \<Rightarrow> exec_all pat 0 cs))"

text \<open>\<open>code.match(pattern)\<close> with a global pattern: the matched texts, in order.\<close>

fun match_all :: "(string \<Rightarrow> nat option) \<Rightarrow> nat \<Rightarrow> string \<Rightarrow> string list" where
  "match_all pat skip [] = []"
| "match_all pat skip (c # cs) =
     (if skip > 0 then match_all pat (skip - 1) cs
      else (case pat (c # cs) of
              Some len \<Rightarrow> take len (c # cs) # match_all pat (len - 1) cs
            | None \<Rightarrow> match_all pat 0 cs))"

text \<open>\<open>script.replace(/<script[^>]*>|<\/script>/gi, '')\<close>: every match is removed.\<close>

definition match_script_tag :: "string \<Rightarrow> nat option" where
  "match_script_tag s =
     (case match_script_open s of Some n \<Rightarrow> Some n | None \<Rightarrow> match_script_close s)"

fun remove_all :: "(string \<Rightarrow> nat option) \<Rightarrow> nat \<Rightarrow> string \<Rightarrow> string" where
  "remove_all pat skip [] = []"
| "remove_all pat skip (c # cs) =
     (if skip > 0 then remove_all pat (skip - 1) cs
      else (case pat (c # cs) of
              Some len \<Rightarrow> remove_all pat (len - 1) cs
            | None \<Rightarrow> c # remove_all pat 0 cs))"

subsection \<open>Arrays\<close>

text \<open>\<open>Array.prototype.lastIndexOf\<close>, which answers -1 when the element is absent.\<close>

fun lastIndexOf :: "'a list \<Rightarrow> 'a \<Rightarrow> int" where
  "lastIndexOf [] x = - 1"
| "lastIndexOf (y # ys) x =
     (let r = lastIndexOf ys x
      in if r \<noteq> - 1 then r + 1 else if y = x then 0 else - 1)"

text \<open>\<open>xs.splice(i, 1)\<close> for an index inside the array.\<close>

definition splice1 :: "'a list \<Rightarrow> nat \<Rightarrow> 'a list" where
  "splice1 xs i = take i xs @ drop (Suc i) xs"

subsection \<open>The execution surface, as far as the detector reads it\<close>

text \<open>
  A \<open>null\<close> or \<open>undefined\<close> reference is \<open>None\<close>. An element carries what
  \<open>doc.defaultView?.getComputedStyle(el)\<close> answers for it (\<open>None\<close> when the document
  has no \<open>defaultView\<close>) and its \<open>textContent\<close>. A document carries its \<open>body\<close>, the
  answer of \<open>querySelectorAll('img')\<close> and the answer of \<open>querySelectorAll('*')\<close>.
\<close>

record CSSStyleDeclaration =
  display :: string
  width :: string
  height :: string

record Element =
  computedStyle :: "CSSStyleDeclaration option"
  textContent :: "string option"

record HTMLImageElement =
  complete :: bool
  naturalWidth :: nat

record HTMLBodyElement =
  innerHTML :: string
  innerText :: string

record Document =
  body :: "HTMLBodyElement option"
  images :: "HTMLImageElement list"
  allElements :: "Element list"

record Window =
  document :: "Document option"

record HTMLIFrameElement =
  contentWindow :: "Window option"

text \<open>
  White space as \<open>trim()\<close> sees it, in UTF-8: the number of bytes of the white-space
  character at the start of a text, 0 when the text starts with none. These are
  U+0009 to U+000D, U+0020, U+00A0, U+1680, U+2000 to U+200A, U+2028, U+2029, U+202F,
  U+205F, U+3000 and U+FEFF.
\<close>

definition ws_len :: "string \<Rightarrow> nat" where
  "ws_len s =
     (case map (of_char :: char \<Rightarrow> nat) (take 3 s) of
        [] \<Rightarrow> 0
      | b0 # bs \<Rightarrow>
          if b0 = 32 \<or> (9 \<le> b0 \<and> b0 \<le> 13) then 1
          else (case bs of
                  [] \<Rightarrow> 0
                | b1 # bs' \<Rightarrow>
                    if b0 = 194 \<and> b1 = 160 then 2
                    else (case bs' of
                            [] \<Rightarrow> 0
                          | b2 # _ \<Rightarrow>
                              if (b0 = 225 \<and> b1 = 154 \<and> b2 = 128)
                                 \<or> (b0 = 226 \<and> b1 = 128 \<and> 128 \<le> b2 \<and> b2 \<le> 138)
                                 \<or> (b0 = 226 \<and> b1 = 128 \<and> (b2 = 168 \<or> b2 = 169 \<or> b2 = 175))
                                 \<or> (b0 = 226 \<and> b1 = 129 \<and> b2 = 159)
                                 \<or> (b0 = 227 \<and> b1 = 128 \<and> b2 = 128)
                                 \<or> (b0 = 239 \<and> b1 = 187 \<and> b2 = 191)
                              then 3 else 0)))"

text \<open>\<open>s.trim()\<close> is the empty string: the text consists of white space only.\<close>

fun blank_from :: "nat \<Rightarrow> string \<Rightarrow> bool" where
  "blank_from skip [] = True"
| "blank_from skip (c # cs) =
     (if skip > 0 then blank_from (skip - 1) cs
      else (let n = ws_len (c # cs) in n > 0 \<and> blank_from (n - 1) cs))"

definition trim_is_empty :: "string \<Rightarrow> bool" where
  "trim_is_empty s = blank_from 0 s"

subsection \<open>The detector\<close>

record ErrorDetector =
  errorLog :: "DetectedError list"
  iframe :: "HTMLIFrameElement option"

definition new_ErrorDetector :: ErrorDetector where
  "new_ErrorDetector = \<lparr>errorLog = [], iframe = None\<rparr>"

text \<open>
  The clock of one run of a detection method: \<open>now k\<close> is what the call of
  \<open>Date.now()\<close> number \<open>k\<close> of the run returns, counting from 0. Each defect appended to
  the local array \<open>errors\<close> reads the clock once, and nothing else does, so the defect
  appended to an array of \<open>k\<close> defects carries \<open>now k\<close>.
\<close>

type_synonym clock = "nat \<Rightarrow> int"

definition push :: "clock \<Rightarrow> DetectedError list \<Rightarrow> ErrorType \<Rightarrow> string \<Rightarrow> DetectedError list" where
  "push now errs ty msg =
     errs @ [\<lparr>type = ty, message = msg, line = None, column = None, stack = None,
              detected_at = now (length errs)\<rparr>]"

definition void_tags :: "string list" where
  "void_tags = [''br'', ''hr'', ''img'', ''input'', ''meta'', ''link'']"

text \<open>
  The first loop: every match of the opening-tag pattern, its name in lower case, kept
  unless it is one of the six exempt names.
\<close>

definition collect_open_tags :: "string \<Rightarrow> string list" where
  "collect_open_tags code =
     filter (\<lambda>tag. tag \<notin> set void_tags) (map toLowerCase (exec_all match_open_tag 0 code))"

text \<open>The names captured by the closing-tag pattern, in order (\<open>match[1]\<close> of each match).\<close>

definition closing_tag_names :: "string \<Rightarrow> string list" where
  "closing_tag_names code = exec_all match_close_tag 0 code"

text \<open>
  One turn of the second loop, on the array \<open>openTags\<close> and the array \<open>errors\<close>.
\<close>

definition close_step ::
  "clock \<Rightarrow> string list \<times> DetectedError list \<Rightarrow> string \<Rightarrow> string list \<times> DetectedError list" where
  "close_step now st name =
     (let openTags = fst st;
          errs = snd st;
          tag = toLowerCase name;
          lastOpen = lastIndexOf openTags tag
      in if lastOpen = - 1
         then (openTags, push now errs syntax_error (''Unexpected closing tag: </'' @ tag @ ''>''))
         else (splice1 openTags (nat lastOpen), errs))"

text \<open>The body of \<open>scriptMatches.forEach\<close>.\<close>

definition check_script :: "clock \<Rightarrow> DetectedError list \<Rightarrow> string \<Rightarrow> DetectedError list" where
  "check_script now errs script =
     (let jsCode = remove_all match_script_tag 0 script;
          errs1 = (if includes_str jsCode ''function ('' \<and> \<not> includes_str jsCode '')''
                   then push now errs syntax_error ''Incomplete function declaration''
                   else errs);
          openBraces = count_list jsCode (CHR ''{'');
          closeBraces = count_list jsCode (CHR ''}'');
          errs2 = (if openBraces \<noteq> closeBraces
                   then push now errs1 syntax_error
                          (''Unmatched braces: '' @ show_nat openBraces @ '' open, ''
                             @ show_nat closeBraces @ '' close'')
                   else errs1);
          openParens = count_list jsCode (CHR ''('');
          closeParens = count_list jsCode (CHR '')'');
          errs3 = (if openParens \<noteq> closeParens
                   then push now errs2 syntax_error
                          (''Unmatched parentheses: '' @ show_nat openParens @ '' open, ''
                             @ show_nat closeParens @ '' close'')
                   else errs2)
      in errs3)"

text \<open>
  Stage 1, \<open>detectSyntaxErrors\<close>: the array returned and the detector afterwards. The
  method works on a local array and assigns no field of the detector.
\<close>

definition detectSyntaxErrors ::
  "clock \<Rightarrow> ErrorDetector \<Rightarrow> string \<Rightarrow> DetectedError list \<times> ErrorDetector" where
  "detectSyntaxErrors now det code =
     (let errs0 = [];
          errs1 = (if \<not> includes_str code ''<!DOCTYPE html>''
                   then push now errs0 syntax_error ''Missing DOCTYPE declaration'' else errs0);
          errs2 = (if \<not> includes_str code ''<html''
                   then push now errs1 syntax_error ''Missing <html> tag'' else errs1);
          errs3 = (if \<not> includes_str code ''</html>''
                   then push now errs2 incomplete_code ''Missing closing </html> tag'' else errs2);
          openTags0 = collect_open_tags code;
          closed = foldl (close_step now) (openTags0, errs3) (closing_tag_names code);
          openTags = fst closed;
          errs4 = snd closed;
          errs5 = (if length openTags > 0
                   then push now errs4 syntax_error (''Unclosed tags: '' @ join '', '' openTags)
                   else errs4);
          scriptMatches = match_all match_script 0 code;
          errs6 = foldl (check_script now) errs5 scriptMatches;
          errs7 = (if \<not> includes_str code ''</html>''
                   then push now errs6 incomplete_code
                          ''HTML document appears incomplete (missing </html>)''
                   else errs6);
          errs8 = (if \<not> includes_str code ''<!DOCTYPE html>''
                   then push now errs7 syntax_error ''Missing DOCTYPE declaration'' else errs7);
          errs9 = (if \<not> includes_str code ''<html''
                   then push now errs8 syntax_error ''Missing <html> tag'' else errs8);
          errs10 = (if \<not> includes_str code ''<body''
                    then push now errs9 syntax_error ''Missing <body> tag'' else errs9)
      in (errs10, det))"

text \<open>
  Stage 2, \<open>monitorIframe\<close>, keeps the frame and registers three listeners. Each of
  them appends one \<open>runtime_error\<close> defect to \<open>errorLog\<close> when the frame calls it, at
  clock reading \<open>t\<close>: the replaced \<open>console.error\<close> with its arguments, the \<open>error\<close>
  event with message, line, column and the stack of its error when it has one, and the
  \<open>unhandledrejection\<close> event with its reason rendered as text.
\<close>

definition monitorIframe :: "ErrorDetector \<Rightarrow> HTMLIFrameElement \<Rightarrow> ErrorDetector" where
  "monitorIframe det fr = det\<lparr>iframe := Some fr\<rparr>"

definition on_console_error :: "ErrorDetector \<Rightarrow> int \<Rightarrow> string list \<Rightarrow> ErrorDetector" where
  "on_console_error det t args =
     det\<lparr>errorLog := errorLog det @
       [\<lparr>type = runtime_error, message = join '' '' args, line = None, column = None,
         stack = None, detected_at = t\<rparr>]\<rparr>"

definition on_error_event ::
  "ErrorDetector \<Rightarrow> int \<Rightarrow> string \<Rightarrow> int \<Rightarrow> int \<Rightarrow> string option \<Rightarrow> ErrorDetector" where
  "on_error_event det t msg lineno colno trace =
     det\<lparr>errorLog := errorLog det @
       [\<lparr>type = runtime_error, message = msg, line = Some lineno, column = Some colno,
         stack = trace, detected_at = t\<rparr>]\<rparr>"

definition on_unhandledrejection :: "ErrorDetector \<Rightarrow> int \<Rightarrow> string \<Rightarrow> ErrorDetector" where
  "on_unhandledrejection det t reason =
     det\<lparr>errorLog := errorLog det @
       [\<lparr>type = runtime_error, message = ''Unhandled Promise Rejection: '' @ reason,
         line = None, column = None, stack = None, detected_at = t\<rparr>]\<rparr>"

definition getErrors :: "ErrorDetector \<Rightarrow> DetectedError list" where
  "getErrors det = errorLog det"

definition clearErrors :: "ErrorDetector \<Rightarrow> ErrorDetector" where
  "clearErrors det = det\<lparr>errorLog := []\<rparr>"

definition hasCriticalErrors :: "ErrorDetector \<Rightarrow> bool" where
  "hasCriticalErrors det =
     list_ex (\<lambda>e. type e = syntax_error \<or> type e = incomplete_code \<or> type e = render_error)
       (errorLog det)"

text \<open>\<open>this.iframe?.contentWindow?.document\<close>\<close>

definition iframe_document :: "ErrorDetector \<Rightarrow> Document option" where
  "iframe_document det =
     (case iframe det of
        None \<Rightarrow> None
      | Some fr \<Rightarrow> (case contentWindow fr of None \<Rightarrow> None | Some w \<Rightarrow> document w))"

definition is_unstyled :: "Element \<Rightarrow> bool" where
  "is_unstyled el =
     (case computedStyle el of
        None \<Rightarrow> False
      | Some cs \<Rightarrow>
          display cs = ''inline'' \<and> width cs = ''auto'' \<and> height cs = ''auto''
          \<and> (case textContent el of None \<Rightarrow> True | Some t \<Rightarrow> trim_is_empty t))"

text \<open>
  Stage 3, \<open>analyzeRenderedOutput\<close>: the array the promise resolves to (\<open>Inr\<close>), or the
  exception it is rejected with (\<open>Inl\<close>). Reading \<open>innerText\<close> of a \<open>body\<close> that is
  \<open>null\<close> throws a \<open>TypeError\<close>. The comparison with half the number of elements is
  written without the fraction.
\<close>

definition analyzeRenderedOutput :: "clock \<Rightarrow> ErrorDetector \<Rightarrow> js_error + DetectedError list" where
  "analyzeRenderedOutput now det =
     (case iframe_document det of
        None \<Rightarrow> Inr (push now [] render_error ''Failed to render content in iframe'')
      | Some doc \<Rightarrow>
          (let errs1 = (if (case body doc of None \<Rightarrow> True | Some b \<Rightarrow> trim_is_empty (innerHTML b))
                        then push now [] render_error ''Document body is empty - nothing rendered''
                        else [])
           in case body doc of
                None \<Rightarrow> Inl TypeError
              | Some b \<Rightarrow>
                  (let bodyText = toLowerCase (innerText b);
                       errs2 = (if includes_str bodyText ''uncaught'' \<or> includes_str bodyText ''syntaxerror''
                                then push now errs1 runtime_error ''Error messages visible in rendered output''
                                else errs1);
                       failedImages = filter (\<lambda>img. \<not> complete img \<or> naturalWidth img = 0) (images doc);
                       errs3 = (if length failedImages > 0
                                then push now errs2 missing_dependency
                                       (show_nat (length failedImages) @ '' image(s) failed to load'')
                                else errs2);
                       styledElements = allElements doc;
                       unstyledElements = filter is_unstyled styledElements;
                       errs4 = (if 2 * length unstyledElements > length styledElements
                                then push now errs3 layout_broken
                                       ''Many elements appear unstyled - possible CSS issues''
                                else errs3)
                   in Inr errs4)))"

section \<open>Vocabulary of the properties\<close>

subsection \<open>Defects without their time of detection\<close>

text \<open>
  \<open>undated\<close> sets the time of detection of a defect to 0, so that two defects that
  differ in nothing else become equal; \<open>defect ty msg\<close> is the undated defect of kind
  \<open>ty\<close> with message \<open>msg\<close> and no position or trace.
\<close>

definition undated :: "DetectedError \<Rightarrow> DetectedError" where
  "undated e = e\<lparr>detected_at := 0\<rparr>"

definition defect :: "ErrorType \<Rightarrow> string \<Rightarrow> DetectedError" where
  "defect ty msg =
     \<lparr>type = ty, message = msg, line = None, column = None, stack = None, detected_at = 0\<rparr>"




subsection \<open>The tag-balance scan\<close>

text \<open>
  What one closing tag does to the array \<open>openTags\<close>: the last entry of that name is
  taken out, and an array without such an entry stays as it is.
\<close>

definition pop_tag :: "string list \<Rightarrow> string \<Rightarrow> string list" where
  "pop_tag openTags tag =
     (if lastIndexOf openTags tag = - 1 then openTags
      else splice1 openTags (nat (lastIndexOf openTags tag)))"

text \<open>The closing tags of a text in lower case, in the order of the scan.\<close>

definition closing_tags :: "string \<Rightarrow> string list" where
  "closing_tags code = map toLowerCase (closing_tag_names code)"

text \<open>The array \<open>openTags\<close> when closing tag number \<open>j\<close> is looked up, and at the end of the scan.\<close>

definition stack_before :: "string list \<Rightarrow> string list \<Rightarrow> nat \<Rightarrow> string list" where
  "stack_before openTags tags j = foldl pop_tag openTags (take j tags)"

definition unclosed_tags :: "string \<Rightarrow> string list" where
  "unclosed_tags code = foldl pop_tag (collect_open_tags code) (closing_tags code)"

text \<open>The closing tags that find no entry of their name in \<open>openTags\<close>, in the order of the scan.\<close>

definition unexpected_closings :: "string list \<Rightarrow> string list \<Rightarrow> string list" where
  "unexpected_closings openTags tags =
     map (\<lambda>j. tags ! j)
       (filter (\<lambda>j. tags ! j \<notin> set (stack_before openTags tags j)) [0..<length tags])"

definition unexpected_defect :: "string \<Rightarrow> DetectedError" where
  "unexpected_defect tag = defect syntax_error (''Unexpected closing tag: </'' @ tag @ ''>'')"

subsection \<open>The defects of Stage 1, part by part\<close>

definition when_missing :: "string \<Rightarrow> string \<Rightarrow> ErrorType \<Rightarrow> string \<Rightarrow> DetectedError list" where
  "when_missing code needle ty msg = (if includes_str code needle then [] else [defect ty msg])"

definition script_defects :: "string \<Rightarrow> DetectedError list" where
  "script_defects script =
     (let jsCode = remove_all match_script_tag 0 script;
          openBraces = count_list jsCode (CHR ''{'');
          closeBraces = count_list jsCode (CHR ''}'');
          openParens = count_list jsCode (CHR ''('');
          closeParens = count_list jsCode (CHR '')'')
      in (if includes_str jsCode ''function ('' \<and> \<not> includes_str jsCode '')''
          then [defect syntax_error ''Incomplete function declaration''] else [])
       @ (if openBraces \<noteq> closeBraces
          then [defect syntax_error (''Unmatched braces: '' @ show_nat openBraces @ '' open, ''
                  @ show_nat closeBraces @ '' close'')] else [])
       @ (if openParens \<noteq> closeParens
          then [defect syntax_error (''Unmatched parentheses: '' @ show_nat openParens @ '' open, ''
                  @ show_nat closeParens @ '' close'')] else []))"

text \<open>
  The undated defects of \<open>detectSyntaxErrors\<close> written as one concatenation, in the order
  of the checks; \<open>detectSyntaxErrors_outline\<close> below proves that this is what the method
  returns.
\<close>

definition structural_outline :: "string \<Rightarrow> DetectedError list" where
  "structural_outline code =
     when_missing code ''<!DOCTYPE html>'' syntax_error ''Missing DOCTYPE declaration''
     @ when_missing code ''<html'' syntax_error ''Missing <html> tag''
     @ when_missing code ''</html>'' incomplete_code ''Missing closing </html> tag''
     @ map unexpected_defect (unexpected_closings (collect_open_tags code) (closing_tags code))
     @ (if unclosed_tags code = [] then []
        else [defect syntax_error (''Unclosed tags: '' @ join '', '' (unclosed_tags code))])
     @ concat (map script_defects (match_all match_script 0 code))
     @ when_missing code ''</html>'' incomplete_code
         ''HTML document appears incomplete (missing </html>)''
     @ when_missing code ''<!DOCTYPE html>'' syntax_error ''Missing DOCTYPE declaration''
     @ when_missing code ''<html'' syntax_error ''Missing <html> tag''
     @ when_missing code ''<body'' syntax_error ''Missing <body> tag''"

subsection \<open>Concrete inputs\<close>

text \<open>A run during which the clock reads \<open>t\<close> at every call.\<close>

definition clock_at :: "int \<Rightarrow> clock" where
  "clock_at t k = t"

text \<open>A page of 72 characters that stops before \<open></html>\<close>.\<close>

definition unfinished_page :: string where
  "unfinished_page =
     ''<!DOCTYPE html><html><head></head><body><p>hi</p><br/><img src=x></body>''"


definition sample_defect :: DetectedError where
  "sample_defect =
     \<lparr>type = runtime_error, message = ''boom'', line = Some 3, column = Some 7,
      stack = None, detected_at = 17\<rparr>"

text \<open>A service that rejects every request, and one that answers every request.\<close>

definition failing_service :: generative_service where
  "failing_service req = Inl ''service unavailable''"

definition answering_service :: generative_service where
  "answering_service req = Inr ''<p>fixed</p>''"

definition answered_call :: "int \<Rightarrow> heal_call" where
  "answered_call n =
     \<lparr>call_service = answering_service, call_now = 1000 + n, call_originalPrompt = ''a page'',
      call_brokenCode = ''<p>'', call_errors = [sample_defect], call_attemptNumber = n\<rparr>"

text \<open>
  A frame whose document has lost its body, as after a script of the page has run
  \<open>document.body.remove()\<close>.
\<close>

definition bodyless_document :: Document where
  "bodyless_document = \<lparr>body = None, images = [], allElements = []\<rparr>"

definition bodyless_frame :: HTMLIFrameElement where
  "bodyless_frame = \<lparr>contentWindow = Some \<lparr>document = Some bodyless_document\<rparr>\<rparr>"

text \<open>A detector that monitors this frame and holds one runtime defect in its buffer.\<close>

definition used_detector :: ErrorDetector where
  "used_detector = \<lparr>errorLog = [sample_defect], iframe = Some bodyless_frame\<rparr>"

section \<open>Properties of the healing engine\<close>

text \<open>
  C1. The strategy depends on the attempt number only, whatever the defects are:
  1 gives \<open>explain_and_fix\<close>, 2 gives \<open>add_error_handling\<close>, 3 gives \<open>simplify\<close>,
  4 gives \<open>use_alternatives\<close>, every number from 5 on gives \<open>rebuild_from_scratch\<close>,
  and \<open>add_fallbacks\<close> is never chosen.
\<close>

theorem selectStrategy_by_ordinal:
  "selectStrategy errs n = selectStrategy errs' n
   \<and> (n = 1 \<longrightarrow> selectStrategy errs n = explain_and_fix)
   \<and> (n = 2 \<longrightarrow> selectStrategy errs n = add_error_handling)
   \<and> (n = 3 \<longrightarrow> selectStrategy errs n = simplify)
   \<and> (n = 4 \<longrightarrow> selectStrategy errs n = use_alternatives)
   \<and> (5 \<le> n \<longrightarrow> selectStrategy errs n = rebuild_from_scratch)
   \<and> selectStrategy errs n \<noteq> add_fallbacks"
  by simp

theorem selectStrategy_by_ordinal_witness:
  "selectStrategy [sample_defect] 1 = explain_and_fix
   \<and> selectStrategy [sample_defect] 2 = add_error_handling
   \<and> selectStrategy [sample_defect] 3 = simplify
   \<and> selectStrategy [sample_defect] 4 = use_alternatives
   \<and> selectStrategy [sample_defect] 5 = rebuild_from_scratch
   \<and> selectStrategy [sample_defect] 9 = rebuild_from_scratch
   \<and> selectStrategy [sample_defect] 9 = selectStrategy [] 9"
  using selectStrategy_by_ordinal [of "[sample_defect]" 1 "[]"]
    selectStrategy_by_ordinal [of "[sample_defect]" 2 "[]"]
    selectStrategy_by_ordinal [of "[sample_defect]" 3 "[]"]
    selectStrategy_by_ordinal [of "[sample_defect]" 4 "[]"]
    selectStrategy_by_ordinal [of "[sample_defect]" 5 "[]"]
    selectStrategy_by_ordinal [of "[sample_defect]" 9 "[]"]
  by simp

text \<open>
  C2. Whatever the engine holds, \<open>healCode\<close> with an attempt number above 5 throws the
  error of the exhausted attempts, leaves the history as it was and sends nothing to the
  generative service.
\<close>

theorem healCode_beyond_max:
  "5 < n \<Longrightarrow>
     healCode svc now eng originalPrompt brokenCode errs n
       = (Inl (Error ''Max healing attempts reached. Code could not be fixed.''), eng, [])"
  by (simp add: healCode_def maxAttempts_def)

theorem healCode_beyond_max_witness:
  "(5::int) < 6 \<and>
   healCode answering_service 0 new_SelfHealingEngine ''a page'' ''<p>'' [sample_defect] 6
     = (Inl (Error ''Max healing attempts reached. Code could not be fixed.''),
        new_SelfHealingEngine, [])"
  using healCode_beyond_max
    [of 6 answering_service 0 new_SelfHealingEngine "''a page''" "''<p>''" "[sample_defect]"]
  by simp

text \<open>
  C3 as stated asks for an attempt in the history after a call in which the service has
  failed. On a new engine and a service that rejects the request, \<open>healCode\<close> throws and
  the history is still empty.
\<close>

theorem healCode_service_failure_counterexample:
  "fst (healCode failing_service 0 new_SelfHealingEngine ''a page'' ''<p>'' [sample_defect] 1)
     = Inl (Error ''LLM fix request failed: service unavailable'')
   \<and> getAttemptHistory
         (fst (snd (healCode failing_service 0 new_SelfHealingEngine ''a page'' ''<p>''
                      [sample_defect] 1))) = []"
  by (simp add: healCode_def requestFix_def failing_service_def maxAttempts_def Let_def
      new_SelfHealingEngine_def getAttemptHistory_def)

text \<open>
  C3, amended. When the attempt number is at most 5 and the service rejects the request
  that \<open>healCode\<close> sends, \<open>healCode\<close> throws the error of the failed request with the
  rejection in its message, the engine is as before (no attempt is appended), and that
  one request is all that was sent.
\<close>

theorem healCode_service_failure:
  assumes "n \<le> 5"
    and "svc (fix_request eng
                (buildFixPrompt originalPrompt brokenCode errs (selectStrategy errs n) n))
           = Inl err"
  shows "healCode svc now eng originalPrompt brokenCode errs n
           = (Inl (Error (''LLM fix request failed: '' @ err)), eng,
              [fix_request eng
                 (buildFixPrompt originalPrompt brokenCode errs (selectStrategy errs n) n)])"
  using assms
  by (simp add: healCode_def requestFix_def maxAttempts_def Let_def del: selectStrategy.simps)

theorem healCode_service_failure_witness:
  "healCode failing_service 0 new_SelfHealingEngine ''a page'' ''<p>'' [sample_defect] 1
     = (Inl (Error ''LLM fix request failed: service unavailable''), new_SelfHealingEngine,
        [fix_request new_SelfHealingEngine
           (buildFixPrompt ''a page'' ''<p>'' [sample_defect] explain_and_fix 1)])"
  using healCode_service_failure
    [where n = 1 and svc = failing_service and eng = new_SelfHealingEngine
       and originalPrompt = "''a page''" and brokenCode = "''<p>''" and errs = "[sample_defect]"
       and err = "''service unavailable''" and now = 0]
  by (simp add: failing_service_def)

subsection \<open>The success flag\<close>

lemma healCode_history_cases:
  "attemptHistory (fst (snd (healCode svc now eng op bc errs n))) = attemptHistory eng
   \<or> (\<exists>a. \<not> success a
          \<and> attemptHistory (fst (snd (healCode svc now eng op bc errs n)))
              = attemptHistory eng @ [a])"
  by (auto simp: healCode_def Let_def split: prod.splits sum.splits)

lemma heal_step_unsuccessful:
  "\<forall>a \<in> set (attemptHistory eng). \<not> success a
   \<Longrightarrow> \<forall>a \<in> set (attemptHistory (heal_step eng c)). \<not> success a"
  using healCode_history_cases [of "call_service c" "call_now c" eng "call_originalPrompt c"
      "call_brokenCode c" "call_errors c" "call_attemptNumber c"]
  by (auto simp: heal_step_def)

lemma foldl_heal_step_unsuccessful:
  "\<forall>a \<in> set (attemptHistory eng). \<not> success a
   \<Longrightarrow> \<forall>a \<in> set (attemptHistory (foldl heal_step eng cs)). \<not> success a"
proof (induction cs arbitrary: eng)
  case Nil
  then show ?case by simp
next
  case (Cons c cs)
  from Cons.prems have "\<forall>a \<in> set (attemptHistory (heal_step eng c)). \<not> success a"
    by (rule heal_step_unsuccessful)
  then show ?case using Cons.IH by simp
qed

lemma heal_session_unsuccessful:
  "\<forall>a \<in> set (attemptHistory (heal_session cs)). \<not> success a"
  unfolding heal_session_def
  by (rule foldl_heal_step_unsuccessful) (simp add: new_SelfHealingEngine_def)

lemma markLast_snoc:
  "attemptHistory eng = hs @ [a]
   \<Longrightarrow> attemptHistory (markLastAttemptSuccess eng) = hs @ [a\<lparr>success := True\<rparr>]"
  by (simp add: markLastAttemptSuccess_def nth_append)

lemma markLast_empty:
  "attemptHistory eng = [] \<Longrightarrow> markLastAttemptSuccess eng = eng"
  by (simp add: markLastAttemptSuccess_def)

text \<open>
  C6. \<open>markLastAttemptSuccess\<close> does nothing to an engine with an empty history. On a
  history that ends with the attempt \<open>a\<close> it replaces \<open>a\<close> by \<open>a\<close> with \<open>success\<close> set,
  every other field of \<open>a\<close> and every earlier attempt being as before. After any
  sequence of \<open>healCode\<close> calls on a new engine, the attempts before the last one have
  \<open>success\<close> unset, so that exactly the last attempt is marked.
\<close>

theorem markLastAttemptSuccess_frame:
  "(attemptHistory eng = [] \<longrightarrow> markLastAttemptSuccess eng = eng)
   \<and> (\<forall>hs a. attemptHistory eng = hs @ [a] \<longrightarrow>
         attemptHistory (markLastAttemptSuccess eng) = hs @ [a\<lparr>success := True\<rparr>])
   \<and> (\<forall>hs a. attemptHistory (heal_session cs) = hs @ [a] \<longrightarrow>
         attemptHistory (markLastAttemptSuccess (heal_session cs)) = hs @ [a\<lparr>success := True\<rparr>]
         \<and> (\<forall>b \<in> set hs. \<not> success b))"
proof (intro conjI allI impI)
  show "markLastAttemptSuccess eng = eng" if "attemptHistory eng = []"
    using that by (rule markLast_empty)
next
  fix hs a
  show "attemptHistory (markLastAttemptSuccess eng) = hs @ [a\<lparr>success := True\<rparr>]"
    if "attemptHistory eng = hs @ [a]"
    using that by (rule markLast_snoc)
next
  fix hs a
  assume h: "attemptHistory (heal_session cs) = hs @ [a]"
  then show "attemptHistory (markLastAttemptSuccess (heal_session cs))
               = hs @ [a\<lparr>success := True\<rparr>]"
    by (rule markLast_snoc)
  show "\<forall>b \<in> set hs. \<not> success b"
    using heal_session_unsuccessful [of cs] h by simp
qed

lemma answered_session_history:
  "attemptHistory (heal_session [answered_call 1, answered_call 2])
     = [\<lparr>attemptNumber = 1, strategy = explain_and_fix,
          prompt = buildFixPrompt ''a page'' ''<p>'' [sample_defect] explain_and_fix 1,
          result = Some ''<p>fixed</p>'', success = False, errors = [sample_defect],
          timestamp = 1001\<rparr>]
       @ [\<lparr>attemptNumber = 2, strategy = add_error_handling,
          prompt = buildFixPrompt ''a page'' ''<p>'' [sample_defect] add_error_handling 2,
          result = Some ''<p>fixed</p>'', success = False, errors = [sample_defect],
          timestamp = 1002\<rparr>]"
  by (simp add: heal_session_def heal_step_def healCode_def requestFix_def answered_call_def
      answering_service_def maxAttempts_def new_SelfHealingEngine_def extract_code_def Let_def)

theorem markLastAttemptSuccess_frame_witness:
  "markLastAttemptSuccess new_SelfHealingEngine = new_SelfHealingEngine
   \<and> map success (attemptHistory (markLastAttemptSuccess (heal_session [answered_call 1, answered_call 2])))
       = [False, True]
   \<and> map attemptNumber (attemptHistory (markLastAttemptSuccess (heal_session [answered_call 1, answered_call 2])))
       = [1, 2]
   \<and> map result (attemptHistory (markLastAttemptSuccess (heal_session [answered_call 1, answered_call 2])))
       = [Some ''<p>fixed</p>'', Some ''<p>fixed</p>'']"
proof -
  let ?cs = "[answered_call 1, answered_call 2]"
  let ?a1 = "\<lparr>attemptNumber = 1, strategy = explain_and_fix,
          prompt = buildFixPrompt ''a page'' ''<p>'' [sample_defect] explain_and_fix 1,
          result = Some ''<p>fixed</p>'', success = False, errors = [sample_defect],
          timestamp = 1001\<rparr>"
  let ?a2 = "\<lparr>attemptNumber = 2, strategy = add_error_handling,
          prompt = buildFixPrompt ''a page'' ''<p>'' [sample_defect] add_error_handling 2,
          result = Some ''<p>fixed</p>'', success = False, errors = [sample_defect],
          timestamp = 1002\<rparr>"
  have e: "attemptHistory new_SelfHealingEngine = []"
    by (simp add: new_SelfHealingEngine_def)
  have s: "attemptHistory (heal_session ?cs) = [?a1] @ [?a2]"
    by (rule answered_session_history)
  have n: "markLastAttemptSuccess new_SelfHealingEngine = new_SelfHealingEngine"
    using markLastAttemptSuccess_frame [of new_SelfHealingEngine ?cs] e by blast
  have g: "attemptHistory (markLastAttemptSuccess (heal_session ?cs))
             = [?a1] @ [?a2\<lparr>success := True\<rparr>]"
    using markLastAttemptSuccess_frame [of "heal_session ?cs" ?cs] s by blast
  have h: "attemptHistory (markLastAttemptSuccess (heal_session ?cs))
             = [?a1] @ [?a2\<lparr>success := True\<rparr>] \<and> (\<forall>b \<in> set [?a1]. \<not> success b)"
    using markLastAttemptSuccess_frame [of new_SelfHealingEngine ?cs] s by blast
  show ?thesis
    using n g h by simp
qed

section \<open>The defects of Stage 1\<close>

subsection \<open>What the method returns\<close>

lemma undated_push:
  "map undated (push now errs ty msg) = map undated errs @ [defect ty msg]"
  by (simp add: push_def undated_def defect_def)

lemma lastIndexOf_lower: "- 1 \<le> lastIndexOf xs x"
  by (induction xs) (auto simp: Let_def)

lemma lastIndexOf_absent: "lastIndexOf xs x = - 1 \<longleftrightarrow> x \<notin> set xs"
proof (induction xs)
  case Nil
  show ?case by simp
next
  case (Cons y ys)
  from lastIndexOf_lower [of ys x] have "lastIndexOf ys x + 1 \<noteq> - 1" by simp
  with Cons show ?case by (auto simp: Let_def)
qed

lemma close_step_stack:
  "fst (close_step now (openTags, errs) name) = pop_tag openTags (toLowerCase name)"
  by (simp add: close_step_def pop_tag_def Let_def)

lemma close_step_errors:
  "map undated (snd (close_step now (openTags, errs) name))
     = map undated errs
       @ (if toLowerCase name \<in> set openTags then [] else [unexpected_defect (toLowerCase name)])"
  by (simp add: close_step_def Let_def lastIndexOf_absent undated_push unexpected_defect_def)

lemma foldl_close_step_stack:
  "fst (foldl (close_step now) (openTags, errs) names) = foldl pop_tag openTags (map toLowerCase names)"
proof (induction names rule: rev_induct)
  case Nil
  show ?case by simp
next
  case (snoc n names)
  obtain ot es where st: "foldl (close_step now) (openTags, errs) names = (ot, es)"
    by (cases "foldl (close_step now) (openTags, errs) names")
  with snoc show ?case by (simp add: close_step_stack)
qed

lemma unexpected_closings_snoc:
  "unexpected_closings openTags (tags @ [t])
     = unexpected_closings openTags tags
       @ (if t \<in> set (foldl pop_tag openTags tags) then [] else [t])"
proof -
  have a: "filter (\<lambda>j. (tags @ [t]) ! j \<notin> set (stack_before openTags (tags @ [t]) j)) [0..<length tags]
         = filter (\<lambda>j. tags ! j \<notin> set (stack_before openTags tags j)) [0..<length tags]"
    by (rule filter_cong) (auto simp: nth_append stack_before_def)
  have b: "map (\<lambda>j. (tags @ [t]) ! j) (filter (\<lambda>j. tags ! j \<notin> set (stack_before openTags tags j)) [0..<length tags])
         = map (\<lambda>j. tags ! j) (filter (\<lambda>j. tags ! j \<notin> set (stack_before openTags tags j)) [0..<length tags])"
    by (rule map_cong) (auto simp: nth_append)
  show ?thesis
    by (simp add: unexpected_closings_def a b) (simp add: stack_before_def)
qed

lemma foldl_close_step_errors:
  "map undated (snd (foldl (close_step now) (openTags, errs) names))
     = map undated errs
       @ map unexpected_defect (unexpected_closings openTags (map toLowerCase names))"
proof (induction names rule: rev_induct)
  case Nil
  show ?case by (simp add: unexpected_closings_def)
next
  case (snoc n names)
  obtain ot es where st: "foldl (close_step now) (openTags, errs) names = (ot, es)"
    by (cases "foldl (close_step now) (openTags, errs) names")
  have ot: "ot = foldl pop_tag openTags (map toLowerCase names)"
    using foldl_close_step_stack [of now openTags errs names] st by simp
  have es: "map undated es = map undated errs
       @ map unexpected_defect (unexpected_closings openTags (map toLowerCase names))"
    using snoc st by simp
  show ?case
    by (simp add: st close_step_errors es unexpected_closings_snoc ot)
qed

lemma check_script_outline:
  "map undated (check_script now errs script) = map undated errs @ script_defects script"
  by (simp add: check_script_def script_defects_def Let_def undated_push)

lemma foldl_check_script_outline:
  "map undated (foldl (check_script now) errs scripts)
     = map undated errs @ concat (map script_defects scripts)"
  by (induction scripts arbitrary: errs) (simp_all add: check_script_outline)

lemma detectSyntaxErrors_outline:
  "map undated (fst (detectSyntaxErrors now det code)) = structural_outline code"
  unfolding detectSyntaxErrors_def structural_outline_def Let_def fst_conv
  by (simp add: undated_push foldl_check_script_outline foldl_close_step_errors
      foldl_close_step_stack when_missing_def unclosed_tags_def closing_tags_def)

lemma detectSyntaxErrors_detector_free:
  "fst (detectSyntaxErrors now det code) = fst (detectSyntaxErrors now det' code)"
  by (simp only: detectSyntaxErrors_def Let_def fst_conv)

lemma detectSyntaxErrors_detector:
  "snd (detectSyntaxErrors now det code) = det"
  by (simp only: detectSyntaxErrors_def Let_def snd_conv)

subsection \<open>The scan in terms of counts\<close>

text \<open>
  A closing tag finds no entry of its name in \<open>openTags\<close> exactly when the text has no
  more opening tags of that name than closing tags of that name before this one. The
  order of opening and closing tags in the text plays no part: the first loop has put
  every opening tag of the text into \<open>openTags\<close> before the second loop starts.
\<close>

lemma lastIndexOf_present:
  "x \<in> set xs \<Longrightarrow> 0 \<le> lastIndexOf xs x \<and> nat (lastIndexOf xs x) < length xs
     \<and> xs ! nat (lastIndexOf xs x) = x"
proof (induction xs)
  case Nil
  then show ?case by simp
next
  case (Cons y ys)
  show ?case
  proof (cases "x \<in> set ys")
    case True
    with Cons.IH have ih: "0 \<le> lastIndexOf ys x" "nat (lastIndexOf ys x) < length ys"
      "ys ! nat (lastIndexOf ys x) = x" by auto
    then have "lastIndexOf (y # ys) x = lastIndexOf ys x + 1"
      by (simp add: Let_def)
    with ih show ?thesis by (simp add: nat_add_distrib)
  next
    case False
    then have "lastIndexOf ys x = - 1" by (simp add: lastIndexOf_absent)
    with False Cons.prems show ?thesis by (simp add: Let_def)
  qed
qed

lemma count_list_splice1:
  assumes "i < length xs"
  shows "count_list (splice1 xs i) c = count_list xs c - (if xs ! i = c then 1 else 0)"
proof -
  have "count_list xs c = count_list (take i xs @ xs ! i # drop (Suc i) xs) c"
    using id_take_nth_drop [OF assms] by simp
  also have "\<dots> = count_list (take i xs) c + count_list (drop (Suc i) xs) c
                    + (if xs ! i = c then 1 else 0)"
    by simp
  finally show ?thesis by (simp add: splice1_def)
qed

lemma count_list_pop_tag:
  "count_list (pop_tag s t) c = count_list s c - (if c = t then 1 else 0)"
proof (cases "t \<in> set s")
  case True
  from lastIndexOf_present [OF True] have "lastIndexOf s t \<noteq> - 1"
    and "nat (lastIndexOf s t) < length s" and "s ! nat (lastIndexOf s t) = t" by auto
  then show ?thesis by (auto simp: pop_tag_def count_list_splice1)
next
  case False
  then have "lastIndexOf s t = - 1" by (simp add: lastIndexOf_absent)
  moreover from False have "count_list s t = 0" by (simp add: count_list_0_iff)
  ultimately show ?thesis by (simp add: pop_tag_def)
qed

lemma count_list_foldl_pop_tag:
  "count_list (foldl pop_tag s ts) c = count_list s c - count_list ts c"
  by (induction ts arbitrary: s) (simp_all add: count_list_pop_tag)

lemma stack_before_member:
  "t \<in> set (stack_before s ts j) \<longleftrightarrow> count_list (take j ts) t < count_list s t"
proof -
  have "t \<in> set (stack_before s ts j) \<longleftrightarrow> count_list (stack_before s ts j) t \<noteq> 0"
    by (simp only: count_list_0_iff simp_thms)
  then show ?thesis by (auto simp: stack_before_def count_list_foldl_pop_tag)
qed

lemma unexpected_closings_by_count:
  "unexpected_closings s ts
     = map (\<lambda>j. ts ! j)
         (filter (\<lambda>j. count_list s (ts ! j) \<le> count_list (take j ts) (ts ! j)) [0..<length ts])"
  by (simp add: unexpected_closings_def stack_before_member not_less)

lemma closing_tag_before_its_opening_tag:
  "collect_open_tags ''</b><b>'' = [''b'']
   \<and> closing_tags ''</b><b>'' = [''b'']
   \<and> unexpected_closings (collect_open_tags ''</b><b>'') (closing_tags ''</b><b>'') = []
   \<and> unclosed_tags ''</b><b>'' = []"
  by code_simp

subsection \<open>Selections of the outline\<close>




lemma script_defects_syntax: "\<forall>d \<in> set (script_defects script). type d = syntax_error"
  by (auto simp: script_defects_def Let_def defect_def)



lemma outline_kinds:
  "\<forall>d \<in> set (structural_outline code). type d = syntax_error \<or> type d = incomplete_code"
  using script_defects_syntax
  by (auto simp: structural_outline_def when_missing_def defect_def unexpected_defect_def)




subsection \<open>The message of the unclosed tags names each of them\<close>




section \<open>Properties of Stage 1\<close>








text \<open>
  C8 as stated asks for identical lists from two runs on the same text. Each defect
  carries the reading of the clock at its detection, so a run at time 1000 and a run at
  time 2000 on \<open>unfinished_page\<close> return different lists.
\<close>

theorem stage_A_time_counterexample:
  "fst (detectSyntaxErrors (clock_at 1000) new_ErrorDetector unfinished_page)
     \<noteq> fst (detectSyntaxErrors (clock_at 2000) new_ErrorDetector unfinished_page)"
  by code_simp

text \<open>
  C8, amended. Two runs of \<open>detectSyntaxErrors\<close> on the same text return the same
  defects in the same order (kinds, messages, positions and traces) whatever the clocks
  and the detectors are: the lists differ in the times of detection at most. With the
  same clock readings the lists are identical, whatever the detectors are.
\<close>

theorem stage_A_repeatable_up_to_time:
  "map undated (fst (detectSyntaxErrors now det code))
     = map undated (fst (detectSyntaxErrors now' det' code))
   \<and> fst (detectSyntaxErrors now det code) = fst (detectSyntaxErrors now det' code)"
  using detectSyntaxErrors_detector_free [of now det code det']
  by (simp add: detectSyntaxErrors_outline)

theorem stage_A_repeatable_up_to_time_witness:
  "map undated (fst (detectSyntaxErrors (clock_at 1000) new_ErrorDetector unfinished_page))
     = map undated (fst (detectSyntaxErrors (clock_at 2000) used_detector unfinished_page))
   \<and> fst (detectSyntaxErrors (clock_at 1000) new_ErrorDetector unfinished_page)
       = fst (detectSyntaxErrors (clock_at 1000) used_detector unfinished_page)"
  using stage_A_repeatable_up_to_time
    [of "clock_at 1000" new_ErrorDetector unfinished_page "clock_at 2000" used_detector]
  by assumption

text \<open>
  C9. \<open>detectSyntaxErrors\<close> leaves the detector as it found it; \<open>getErrors\<close> returns after
  the check what it returned before, and no defect of the check is in the buffer
  unless it was there already.
\<close>

theorem stage_A_leaves_buffer:
  "snd (detectSyntaxErrors now det code) = det
   \<and> getErrors (snd (detectSyntaxErrors now det code)) = getErrors det"
  by (simp only: detectSyntaxErrors_detector simp_thms)

theorem stage_A_leaves_buffer_witness:
  "snd (detectSyntaxErrors (clock_at 1000) used_detector unfinished_page) = used_detector
   \<and> getErrors (snd (detectSyntaxErrors (clock_at 1000) used_detector unfinished_page))
       = [sample_defect]"
  using stage_A_leaves_buffer [of "clock_at 1000" used_detector unfinished_page]
  by (simp add: getErrors_def used_detector_def)

text \<open>
  C10. Every defect that \<open>detectSyntaxErrors\<close> returns has kind \<open>syntax_error\<close> or
  \<open>incomplete_code\<close>, and none of the five other kinds.
\<close>

theorem stage_A_kinds:
  "\<forall>e \<in> set (fst (detectSyntaxErrors now det code)).
     (type e = syntax_error \<or> type e = incomplete_code)
     \<and> type e \<notin> {runtime_error, render_error, missing_dependency, layout_broken, llm_generation_error}"
proof
  fix e
  assume "e \<in> set (fst (detectSyntaxErrors now det code))"
  then have "undated e \<in> set (map undated (fst (detectSyntaxErrors now det code)))"
    by simp
  then have "undated e \<in> set (structural_outline code)"
    by (simp only: detectSyntaxErrors_outline)
  with outline_kinds have "type (undated e) = syntax_error \<or> type (undated e) = incomplete_code"
    by blast
  then have k: "type e = syntax_error \<or> type e = incomplete_code"
    by (simp add: undated_def)
  then show "(type e = syntax_error \<or> type e = incomplete_code)
     \<and> type e \<notin> {runtime_error, render_error, missing_dependency, layout_broken, llm_generation_error}"
    by auto
qed

theorem stage_A_kinds_witness:
  "\<lparr>type = incomplete_code, message = ''Missing closing </html> tag'', line = None, column = None,
     stack = None, detected_at = 1000\<rparr>
     \<in> set (fst (detectSyntaxErrors (clock_at 1000) new_ErrorDetector unfinished_page))
   \<and> map type (fst (detectSyntaxErrors (clock_at 1000) new_ErrorDetector unfinished_page))
       = [incomplete_code, syntax_error, incomplete_code]"
proof -
  have m: "\<lparr>type = incomplete_code, message = ''Missing closing </html> tag'', line = None,
             column = None, stack = None, detected_at = 1000\<rparr>
     \<in> set (fst (detectSyntaxErrors (clock_at 1000) new_ErrorDetector unfinished_page))"
    by code_simp
  have k: "map type (fst (detectSyntaxErrors (clock_at 1000) new_ErrorDetector unfinished_page))
       = [incomplete_code, syntax_error, incomplete_code]"
    by code_simp
  show ?thesis
    using m k stage_A_kinds [of "clock_at 1000" new_ErrorDetector unfinished_page]
    by simp
qed

section \<open>Stage 3 on a document without body\<close>

lemma analyzeRenderedOutput_no_document:
  "iframe_document det = None \<Longrightarrow>
     analyzeRenderedOutput now det
       = Inr [\<lparr>type = render_error, message = ''Failed to render content in iframe'',
               line = None, column = None, stack = None, detected_at = now 0\<rparr>]"
  by (simp add: analyzeRenderedOutput_def push_def)

lemma analyzeRenderedOutput_throws_iff:
  "iframe_document det = Some doc \<Longrightarrow>
     (analyzeRenderedOutput now det = Inl TypeError \<longleftrightarrow> body doc = None)
     \<and> (body doc \<noteq> None \<longrightarrow> (\<exists>errs. analyzeRenderedOutput now det = Inr errs))"
  by (auto simp: analyzeRenderedOutput_def Let_def split: option.splits)

text \<open>
  C7 says that \<open>analyzeRenderedOutput\<close> never throws. With no frame, no window or no
  document it returns one \<open>render_error\<close> defect (\<open>analyzeRenderedOutput_no_document\<close>),
  but on a frame whose document has no body it throws a \<open>TypeError\<close>: the check for an
  empty body allows for \<open>doc.body\<close> being \<open>null\<close>, and the next statement reads
  \<open>doc.body.innerText\<close> all the same.
\<close>

theorem analyzeRenderedOutput_null_body:
  "iframe_document det = Some doc \<Longrightarrow> body doc = None \<Longrightarrow>
     analyzeRenderedOutput now det = Inl TypeError"
  by (simp add: analyzeRenderedOutput_def Let_def)

theorem analyzeRenderedOutput_null_body_witness:
  "iframe_document (monitorIframe new_ErrorDetector bodyless_frame) = Some bodyless_document
   \<and> body bodyless_document = None
   \<and> analyzeRenderedOutput (clock_at 1000) (monitorIframe new_ErrorDetector bodyless_frame)
       = Inl TypeError"
proof -
  have d: "iframe_document (monitorIframe new_ErrorDetector bodyless_frame) = Some bodyless_document"
    by (simp add: iframe_document_def monitorIframe_def bodyless_frame_def)
  have b: "body bodyless_document = None"
    by (simp add: bodyless_document_def)
  show ?thesis
    using d b analyzeRenderedOutput_null_body [OF d b, of "clock_at 1000"] by simp
qed

end
